theory Spec2Isabelle
  imports Main "HOL-Library.Word"
begin

unbundle bit_operations_syntax

section \<open>Graupner HoTT telemetry daemon: the frame I/O layer of hott\_telemetry.c\<close>

subsection \<open>Data\<close>

type_synonym u8 = "8 word"
type_synonym u16 = "16 word"

text \<open>The two return codes of the file's functions (NuttX \<^verbatim>\<open>OK\<close> = 0 and
  \<^verbatim>\<open>ERROR\<close> = -1). There is no third value: every failure path returns
  \<^verbatim>\<open>ERROR\<close>.\<close>

datatype retcode = OK | ERROR

text \<open>The macros that hott\_telemetry.c takes from \<^verbatim>\<open>../messages.h\<close> and
  \<^verbatim>\<open>../comms.h\<close>. The headers are not part of the sources at hand, so the values are
  parameters: every theorem below holds for all of them.\<close>

record messages_h =
  BINARY_MODE_REQUEST_ID :: u8
  EAM_SENSOR_ID :: u8
  GPS_SENSOR_ID :: u8
  STOP_BYTE :: u8
  POST_READ_DELAY_IN_USECS :: nat
  POST_WRITE_DELAY_IN_USECS :: nat

text \<open>Everything outside the program that its system calls touch.
  \<^item> \<open>rx\<close> is the sequence of bytes that arrive on the receive path of the serial line, in
    order, and \<open>rpos\<close> counts how many of them have been consumed by \<^verbatim>\<open>read\<close>.
  \<^item> \<open>tx\<close> is the sequence of bytes that went out on the line.
  \<^item> \<open>wfail k\<close> says whether the \<open>k\<close>-th call of \<^verbatim>\<open>write\<close> fails (returns -1 and
    transmits nothing); \<open>wcnt\<close> counts the calls made.
  \<^item> \<open>polls k\<close> is what the \<open>k\<close>-th call of \<^verbatim>\<open>poll\<close> returns (positive: a byte is
    readable within the timeout; 0: timeout; negative: error); \<open>pcnt\<close> counts the calls.
  \<^item> \<open>slept\<close> adds up the microseconds asked of \<^verbatim>\<open>usleep\<close>.
  \<^item> \<open>console\<close> is the list of messages printed by \<^verbatim>\<open>warnx\<close>.
  \<^item> \<open>rres k n\<close> is what the \<open>k\<close>-th read into an array returns when it asks for \<open>n\<close>
    bytes: negative for an error, else the number of bytes it delivers, which may be fewer than
    \<open>n\<close>; \<open>rcnt\<close> counts these reads.
  \<^item> \<open>trace\<close> is the sequence of the writes and of the reads into an array, in the order in
    which they were made, each with its result.\<close>

datatype syscall = Write u8 int | Read nat int

record world =
  rx :: "nat \<Rightarrow> u8"
  rpos :: nat
  tx :: "u8 list"
  wfail :: "nat \<Rightarrow> bool"
  wcnt :: nat
  polls :: "nat \<Rightarrow> int"
  pcnt :: nat
  slept :: nat
  console :: "string list"
  rres :: "nat \<Rightarrow> nat \<Rightarrow> int"
  rcnt :: nat
  trace :: "syscall list"

subsection \<open>System calls\<close>

text \<open>\<^verbatim>\<open>poll(fds, 1, timeout_ms)\<close> on the serial line: the result is the environment's.\<close>

definition poll_uart :: "world \<Rightarrow> int \<times> world" where
  "poll_uart w = (polls w (pcnt w), w\<lparr>pcnt := pcnt w + 1\<rparr>)"

text \<open>The number of bytes that the next read into an array takes off the receive path when it
  asks for \<open>n\<close>: none when it fails, and never more than \<open>n\<close>.\<close>

definition read_count :: "world \<Rightarrow> nat \<Rightarrow> nat" where
  "read_count w n = (if rres w (rcnt w) n \<le> 0 then 0 else min n (nat (rres w (rcnt w) n)))"

text \<open>\<^verbatim>\<open>read(uart, p, n)\<close> into an array of \<open>n\<close> bytes: one call, which returns what the
  environment gives it and delivers that many of the next bytes of the receive path. The result
  is the value returned, the bytes delivered and the world.\<close>

definition read_uart :: "world \<Rightarrow> nat \<Rightarrow> int \<times> u8 list \<times> world" where
  "read_uart w n =
     (rres w (rcnt w) n,
      map (\<lambda>k. rx w (rpos w + k)) [0..<read_count w n],
      w\<lparr>rpos := rpos w + read_count w n, rcnt := rcnt w + 1,
        trace := trace w @ [Read n (rres w (rcnt w) n)]\<rparr>)"

text \<open>\<^verbatim>\<open>read(uart, &b, 1)\<close>, the blocking one-byte read of the listener: it delivers the
  next byte of the receive path.\<close>

definition read_byte :: "world \<Rightarrow> u8 \<times> world" where
  "read_byte w = (rx w (rpos w), w\<lparr>rpos := rpos w + 1\<rparr>)"

text \<open>\<^verbatim>\<open>write(uart, &b, 1)\<close>: returns 1 and transmits the byte, or returns -1 and
  transmits nothing.\<close>

definition write_uart :: "world \<Rightarrow> u8 \<Rightarrow> int \<times> world" where
  "write_uart w b =
     (if wfail w (wcnt w)
      then (- 1, w\<lparr>wcnt := wcnt w + 1, trace := trace w @ [Write b (- 1)]\<rparr>)
      else (1, w\<lparr>tx := tx w @ [b], wcnt := wcnt w + 1, trace := trace w @ [Write b 1]\<rparr>))"

definition usleep :: "world \<Rightarrow> nat \<Rightarrow> world" where
  "usleep w us = w\<lparr>slept := slept w + us\<rparr>"

definition warnx :: "world \<Rightarrow> string \<Rightarrow> world" where
  "warnx w msg = w\<lparr>console := console w @ [msg]\<rparr>"

subsection \<open>send\_data\<close>

text \<open>The \<^verbatim>\<open>for\<close> loop of \<^verbatim>\<open>send_data\<close> from index \<open>i\<close> on. The buffer is the memory
  behind the pointer \<^verbatim>\<open>uint8_t *buffer\<close>, indexed from the pointer; \<open>checksum\<close> is the
  \<^verbatim>\<open>uint16_t\<close> accumulator. Inside the loop \<open>i < size_v\<close>, so \<open>size_v - 1\<close> does not wrap.
  The result of \<^verbatim>\<open>write\<close> is dropped, as in the source.\<close>

function send_data_loop ::
  "messages_h \<Rightarrow> nat \<Rightarrow> nat \<Rightarrow> world \<times> (nat \<Rightarrow> u8) \<times> u16 \<Rightarrow> world \<times> (nat \<Rightarrow> u8) \<times> u16" where
  "send_data_loop c size_v i (w, buffer, checksum) =
     (if i < size_v then
        let (buffer1, checksum1) =
              (if i = size_v - 1 then (buffer(i := ucast (checksum AND 0xff)), checksum)
               else (buffer, checksum + ucast (buffer i)));
            (r, w1) = write_uart w (buffer1 i);
            w2 = usleep w1 (POST_WRITE_DELAY_IN_USECS c)
        in send_data_loop c size_v (i + 1) (w2, buffer1, checksum1)
      else (w, buffer, checksum))"
  by pat_completeness auto
termination
  by (relation "measure (\<lambda>(c, size_v, i, s). size_v - i)") auto

declare send_data_loop.simps [simp del]

definition send_data ::
  "messages_h \<Rightarrow> world \<Rightarrow> (nat \<Rightarrow> u8) \<Rightarrow> nat \<Rightarrow> retcode \<times> world \<times> (nat \<Rightarrow> u8)" where
  "send_data c w buffer size_v =
     (let w0 = usleep w (POST_READ_DELAY_IN_USECS c);
          (w1, buffer1, checksum) = send_data_loop c size_v 0 (w0, buffer, 0);
          (r, dummy, w2) = read_uart w1 size_v
      in (OK, w2, buffer1))"

subsection \<open>recv\_req\_id\<close>

text \<open>\<open>id_v\<close> is the value behind \<^verbatim>\<open>uint8_t *id\<close> at the call; the third component of
  the result is the value behind it at the return. Both failure paths return the same
  \<^verbatim>\<open>ERROR\<close>; only the timeout path prints a warning.\<close>

definition recv_req_id :: "messages_h \<Rightarrow> world \<Rightarrow> u8 \<Rightarrow> retcode \<times> world \<times> u8" where
  "recv_req_id c w id_v =
     (let (p, w1) = poll_uart w in
      if p > 0 then
        let (mode, w2) = read_byte w1 in
        if mode \<noteq> BINARY_MODE_REQUEST_ID c then (ERROR, w2, id_v)
        else let (b, w3) = read_byte w2 in (OK, w3, b)
      else (ERROR, warnx w1 ''UART timeout on TX/RX port'', id_v))"

subsection \<open>recv\_data\<close>

text \<open>The largest value of the \<^verbatim>\<open>int\<close> of the 32-bit targets this firmware is built
  for.\<close>

definition INT_MAX :: int where
  "INT_MAX = 2147483647"

text \<open>How a call ends: it returns, or it reaches the increment of an \<^verbatim>\<open>int\<close> that holds
  \<open>INT_MAX\<close>. What the program does from there is undefined; \<open>Overflow\<close> keeps the world, the
  buffer, the value behind \<^verbatim>\<open>id\<close> and the index at that point.\<close>

datatype 'a outcome = Returned 'a | Overflow "world \<times> (nat \<Rightarrow> u8) \<times> u8 \<times> int"

text \<open>The \<^verbatim>\<open>while (true)\<close> loop of \<^verbatim>\<open>recv_data\<close>, with the \<^verbatim>\<open>int\<close> index \<open>i\<close>. Its one
  exit is the \<^verbatim>\<open>return\<close> after the byte that follows the stop byte; the index is not
  compared with any capacity, and the buffer is the memory behind the pointer, however far the
  index goes. Both \<^verbatim>\<open>++i\<close> and \<^verbatim>\<open>i++\<close> overflow when \<open>i\<close> holds \<open>INT_MAX\<close> (an
  \<^verbatim>\<open>int\<close> holds nothing above it). A returned result is the world, the buffer, and the values
  stored through \<^verbatim>\<open>size\<close> and \<^verbatim>\<open>id\<close>.\<close>

function recv_data_loop ::
  "messages_h \<Rightarrow> world \<Rightarrow> (nat \<Rightarrow> u8) \<Rightarrow> u8 \<Rightarrow> int \<Rightarrow> bool
     \<Rightarrow> (world \<times> (nat \<Rightarrow> u8) \<times> nat \<times> u8) outcome" where
  "recv_data_loop c w buffer id_v i stop_byte_read =
     (let (b, w1) = read_byte w;
          buffer1 = buffer(nat i := b)
      in if stop_byte_read then
           (if INT_MAX \<le> i then Overflow (w1, buffer1, id_v, i)
            else Returned (w1, buffer1, nat (i + 1), id_v))
         else if buffer1 (nat i) = STOP_BYTE c then
           (if INT_MAX \<le> i then Overflow (w1, buffer1, buffer1 1, i)
            else recv_data_loop c w1 buffer1 (buffer1 1) (i + 1) True)
         else
           (if INT_MAX \<le> i then Overflow (w1, buffer1, id_v, i)
            else recv_data_loop c w1 buffer1 id_v (i + 1) False))"
  by pat_completeness auto
termination
  by (relation "measure (\<lambda>(c, w, buffer, id_v, i, stop_byte_read). nat (INT_MAX - i))") auto

declare recv_data_loop.simps [simp del]

text \<open>\<^verbatim>\<open>recv_data\<close>: the return code, the world, the buffer and the values behind
  \<^verbatim>\<open>size\<close> and \<^verbatim>\<open>id\<close>, or the overflow of the loop.\<close>

definition recv_data ::
  "messages_h \<Rightarrow> world \<Rightarrow> (nat \<Rightarrow> u8) \<Rightarrow> nat \<Rightarrow> u8
     \<Rightarrow> (retcode \<times> world \<times> (nat \<Rightarrow> u8) \<times> nat \<times> u8) outcome" where
  "recv_data c w buffer size_v id_v =
     (let w0 = usleep w 5000;
          (p, w1) = poll_uart w0
      in if p > 0 then
           (case recv_data_loop c w1 buffer id_v 0 False of
              Returned (w2, buffer2, size2, id2) \<Rightarrow> Returned (OK, w2, buffer2, size2, id2)
            | Overflow s \<Rightarrow> Overflow s)
         else Returned (ERROR, w1, buffer, size_v, id_v))"

subsection \<open>The session loop of hott\_telemetry\_thread\_main\<close>

text \<open>The variables of the loop.\<close>

record locals =
  buffer :: "nat \<Rightarrow> u8"
  size_v :: nat
  id_v :: u8
  connected :: bool

text \<open>\<^verbatim>\<open>build_eam_response\<close> and \<^verbatim>\<open>build_gps_response\<close> live in messages.c, outside
  the sources at hand. They are parameters: any function that, reading the environment, turns
  the buffer and the size behind its two pointers into new ones.\<close>

type_synonym builder = "world \<Rightarrow> (nat \<Rightarrow> u8) \<times> nat \<Rightarrow> (nat \<Rightarrow> u8) \<times> nat"

text \<open>One iteration of the \<^verbatim>\<open>while (!thread_should_exit)\<close> loop. The \<^verbatim>\<open>continue\<close> of the
  \<^verbatim>\<open>default\<close> case ends the iteration before \<^verbatim>\<open>send_data\<close>; the result of
  \<^verbatim>\<open>send_data\<close> is dropped.\<close>

definition cycle :: "messages_h \<Rightarrow> builder \<Rightarrow> builder \<Rightarrow> world \<times> locals \<Rightarrow> world \<times> locals" where
  "cycle c build_eam_response build_gps_response s =
     (let (w, l) = s;
          (r, w1, id1) = recv_req_id c w (id_v l)
      in if r = OK then
           let (w2, connected1) =
                 (if \<not> connected l then (warnx w1 ''OK'', True) else (w1, connected l))
           in if id1 = EAM_SENSOR_ID c then
                let (buffer1, size1) = build_eam_response w2 (buffer l, size_v l);
                    (r2, w3, buffer2) = send_data c w2 buffer1 size1
                in (w3, \<lparr>buffer = buffer2, size_v = size1, id_v = id1, connected = connected1\<rparr>)
              else if id1 = GPS_SENSOR_ID c then
                let (buffer1, size1) = build_gps_response w2 (buffer l, size_v l);
                    (r2, w3, buffer2) = send_data c w2 buffer1 size1
                in (w3, \<lparr>buffer = buffer2, size_v = size1, id_v = id1, connected = connected1\<rparr>)
              else (w2, \<lparr>buffer = buffer l, size_v = size_v l, id_v = id1, connected = connected1\<rparr>)
         else (warnx w1 ''syncing'',
               \<lparr>buffer = buffer l, size_v = size_v l, id_v = id1, connected = False\<rparr>))"

text \<open>The loop itself. \<^verbatim>\<open>thread_should_exit\<close> is set from outside (the \<^verbatim>\<open>stop\<close>
  command); \<open>n\<close> is the number of iterations that start before the flag is seen set.\<close>

fun main_loop ::
  "messages_h \<Rightarrow> builder \<Rightarrow> builder \<Rightarrow> nat \<Rightarrow> world \<times> locals \<Rightarrow> world \<times> locals" where
  "main_loop c build_eam_response build_gps_response 0 s = s"
| "main_loop c build_eam_response build_gps_response (Suc n) s =
     main_loop c build_eam_response build_gps_response n
       (cycle c build_eam_response build_gps_response s)"

text \<open>\<^verbatim>\<open>hott_telemetry_thread_main\<close> from the declaration of its loop variables on (the
  command line and \<^verbatim>\<open>open_uart\<close> come before): \<open>buffer0\<close> is the uninitialised content
  of \<^verbatim>\<open>buffer\<close>.\<close>

definition hott_telemetry_thread_main ::
  "messages_h \<Rightarrow> builder \<Rightarrow> builder \<Rightarrow> nat \<Rightarrow> world \<Rightarrow> (nat \<Rightarrow> u8) \<Rightarrow> world \<times> locals" where
  "hott_telemetry_thread_main c build_eam_response build_gps_response n w buffer0 =
     (let (w1, l) = main_loop c build_eam_response build_gps_response n
                      (w, \<lparr>buffer = buffer0, size_v = 0, id_v = 0, connected = True\<rparr>)
      in (warnx w1 ''exiting'', l))"

subsection \<open>Concrete inputs\<close>

text \<open>An instance of the header's values for the concrete runs below. The marker
  \<open>0xA1\<close> is the one the specification's first scenario names; the others are arbitrary.\<close>

definition example_h :: messages_h where
  "example_h = \<lparr>BINARY_MODE_REQUEST_ID = 0xA1, EAM_SENSOR_ID = 0x8E, GPS_SENSOR_ID = 0x8A,
     STOP_BYTE = 0x7D, POST_READ_DELAY_IN_USECS = 4000, POST_WRITE_DELAY_IN_USECS = 2000\<rparr>"

text \<open>The values \<open>xs\<close> followed by zeros: an incoming stream, the content of a buffer, or
  the results of successive polls.\<close>

definition padded :: "'a::zero list \<Rightarrow> nat \<Rightarrow> 'a" where
  "padded xs k = (if k < length xs then xs ! k else 0)"

definition no_fail :: "nat \<Rightarrow> bool" where
  "no_fail k = False"

definition all_fail :: "nat \<Rightarrow> bool" where
  "all_fail k = True"

definition ready :: "nat \<Rightarrow> int" where
  "ready k = 1"

definition silent :: "nat \<Rightarrow> int" where
  "silent k = 0"

text \<open>A builder that fills in the frame \<open>xs\<close>, whatever the sensors say.\<close>

definition fixed_builder :: "u8 list \<Rightarrow> builder" where
  "fixed_builder xs w s = (padded xs, length xs)"

text \<open>The variables of the loop as \<^verbatim>\<open>hott_telemetry_thread_main\<close> initialises them, over an
  all-zero buffer.\<close>

definition initial :: locals where
  "initial = \<lparr>buffer = padded [], size_v = 0, id_v = 0, connected = True\<rparr>"

text \<open>Reads into an array that deliver all the bytes asked for, and reads that deliver two
  bytes whatever is asked for.\<close>

definition full_reads :: "nat \<Rightarrow> nat \<Rightarrow> int" where
  "full_reads k n = int n"


text \<open>A fresh world: nothing read, written, slept or printed yet, and every read into an
  array satisfied in full.\<close>

definition line :: "(nat \<Rightarrow> u8) \<Rightarrow> (nat \<Rightarrow> bool) \<Rightarrow> (nat \<Rightarrow> int) \<Rightarrow> world" where
  "line r f p = \<lparr>rx = r, rpos = 0, tx = [], wfail = f, wcnt = 0, polls = p, pcnt = 0,
     slept = 0, console = [], rres = full_reads, rcnt = 0, trace = []\<rparr>"

text \<open>The session after one iteration in which the poll timed out, started from the initial
  variables; the next poll will find the marker and the sensor id 1 on the line.\<close>

definition timed_out :: "world \<times> locals" where
  "timed_out = cycle example_h (fixed_builder [1, 2, 3]) (fixed_builder [4, 5, 6])
     (line (padded [0xA1, 0x01]) no_fail (padded [0, 1]), initial)"

section \<open>Properties\<close>

subsection \<open>The loop of send\_data\<close>

lemma send_data_loop_done: "\<not> i < n \<Longrightarrow> send_data_loop c n i s = s"
  by (cases s) (simp add: send_data_loop.simps)

lemma send_data_loop_last:
  "i = n - 1 \<Longrightarrow> i < n \<Longrightarrow> send_data_loop c n i (w, buf, cs) =
     (usleep (snd (write_uart w (ucast (cs AND 0xff)))) (POST_WRITE_DELAY_IN_USECS c),
      buf(i := ucast (cs AND 0xff)), cs)"
  by (subst send_data_loop.simps) (simp add: split_def Let_def send_data_loop_done)

lemma send_data_loop_step:
  "i \<noteq> n - 1 \<Longrightarrow> i < n \<Longrightarrow> send_data_loop c n i (w, buf, cs) =
     send_data_loop c n (i + 1)
       (usleep (snd (write_uart w (buf i))) (POST_WRITE_DELAY_IN_USECS c),
        buf, cs + ucast (buf i))"
  by (subst send_data_loop.simps) (simp add: split_def Let_def)

text \<open>The buffer after the loop: only the last position of the frame has changed, to the low
  byte of the sum of the bytes before it.\<close>

lemma send_data_loop_buffer:
  "i < n \<Longrightarrow> fst (snd (send_data_loop c n i (w, buf, cs))) =
     buf(n - 1 := ucast ((cs + (\<Sum>j = i..<n - 1. ucast (buf j))) AND 0xff))"
proof (induction "n - i" arbitrary: i w cs)
  case 0
  then show ?case by simp
next
  case (Suc k)
  show ?case
  proof (cases "i = n - 1")
    case True
    with Suc.prems show ?thesis by (simp add: send_data_loop_last)
  next
    case False
    with Suc.prems have lt: "i + 1 < n" by simp
    have k: "k = n - (i + 1)" using Suc.hyps(2) by simp
    have "i < n - 1" using lt by simp
    then have s: "(\<Sum>j = i..<n - 1. ucast (buf j) :: u16) =
        ucast (buf i) + (\<Sum>j = i + 1..<n - 1. ucast (buf j))"
      by (simp add: sum.atLeast_Suc_lessThan)
    show ?thesis
      using Suc.hyps(1)[OF k lt] False Suc.prems s
      by (simp add: send_data_loop_step add.assoc)
  qed
qed

text \<open>What the loop leaves alone in the world, and how many times it calls
  \<^verbatim>\<open>write\<close>.\<close>

lemma send_data_loop_frame:
  "rx (fst (send_data_loop c n i (w, buf, cs))) = rx w \<and>
   rpos (fst (send_data_loop c n i (w, buf, cs))) = rpos w \<and>
   wfail (fst (send_data_loop c n i (w, buf, cs))) = wfail w \<and>
   polls (fst (send_data_loop c n i (w, buf, cs))) = polls w \<and>
   pcnt (fst (send_data_loop c n i (w, buf, cs))) = pcnt w \<and>
   console (fst (send_data_loop c n i (w, buf, cs))) = console w \<and>
   rres (fst (send_data_loop c n i (w, buf, cs))) = rres w \<and>
   rcnt (fst (send_data_loop c n i (w, buf, cs))) = rcnt w \<and>
   wcnt (fst (send_data_loop c n i (w, buf, cs))) = wcnt w + (n - i)"
proof (induction "n - i" arbitrary: i w buf cs)
  case 0
  then show ?case by (simp add: send_data_loop_done)
next
  case (Suc k)
  then have lt: "i < n" by simp
  show ?case
  proof (cases "i = n - 1")
    case True
    with lt show ?thesis
      by (simp add: send_data_loop_last usleep_def write_uart_def)
  next
    case False
    have k: "k = n - (i + 1)" using Suc.hyps(2) by simp
    show ?thesis
      using Suc.hyps(1)[OF k] False lt
      by (simp add: send_data_loop_step usleep_def write_uart_def)
  qed
qed

text \<open>The bytes the loop puts on the line when none of its writes fails.\<close>

lemma send_data_loop_tx:
  "i < n \<Longrightarrow> \<forall>k<n - i. \<not> wfail w (wcnt w + k) \<Longrightarrow>
   tx (fst (send_data_loop c n i (w, buf, cs))) =
     tx w @ map buf [i..<n - 1] @ [ucast ((cs + (\<Sum>j = i..<n - 1. ucast (buf j))) AND 0xff)]"
proof (induction "n - i" arbitrary: i w cs)
  case 0
  then show ?case by simp
next
  case (Suc k)
  have nf: "\<not> wfail w (wcnt w)"
    using Suc.prems(2)[rule_format, of 0] Suc.prems(1) by simp
  show ?case
  proof (cases "i = n - 1")
    case True
    with Suc.prems(1) nf show ?thesis
      by (simp add: send_data_loop_last usleep_def write_uart_def)
  next
    case False
    with Suc.prems have lt: "i + 1 < n" by simp
    have k: "k = n - (i + 1)" using Suc.hyps(2) by simp
    have i1: "i < n - 1" using lt by simp
    then have s: "(\<Sum>j = i..<n - 1. ucast (buf j) :: u16) =
        ucast (buf i) + (\<Sum>j = i + 1..<n - 1. ucast (buf j))"
      by (simp add: sum.atLeast_Suc_lessThan)
    have u: "[i..<n - 1] = i # [i + 1..<n - 1]"
      using i1 by (simp add: upt_conv_Cons)
    let ?w = "usleep (snd (write_uart w (buf i))) (POST_WRITE_DELAY_IN_USECS c)"
    have w': "wfail ?w = wfail w" "wcnt ?w = wcnt w + 1" "tx ?w = tx w @ [buf i]"
      using nf by (simp_all add: usleep_def write_uart_def)
    have "\<forall>k<n - (i + 1). \<not> wfail ?w (wcnt ?w + k)"
    proof (intro allI impI)
      fix k assume "k < n - (i + 1)"
      then have "k + 1 < n - i" by simp
      with Suc.prems(2) have "\<not> wfail w (wcnt w + (k + 1))" by blast
      then show "\<not> wfail ?w (wcnt ?w + k)" by (simp add: w')
    qed
    from Suc.hyps(1)[OF k lt this, of "cs + ucast (buf i)"]
    show ?thesis
      using False Suc.prems(1) s u by (simp add: send_data_loop_step w' add.assoc)
  qed
qed


subsection \<open>The checksum as a number\<close>

lemma low_byte: "unat (ucast ((x :: u16) AND 0xff) :: u8) = unat x mod 256"
proof -
  have m: "(255 :: u16) = mask 8" by (simp add: mask_eq_exp_minus_1)
  have "(ucast (x AND 0xff) :: u8) = ucast x"
    unfolding m by (rule bit_word_eqI) (auto simp add: bit_simps)
  then show ?thesis by (simp add: unsigned_ucast_eq take_bit_eq_mod)
qed

lemma sum_ucast:
  "unat (\<Sum>j = 0..<m. ucast ((buf :: nat \<Rightarrow> u8) j) :: u16) = (\<Sum>j<m. unat (buf j)) mod 65536"
proof -
  have "(of_nat (\<Sum>j<m. unat (buf j)) :: u16) = (\<Sum>j = 0..<m. ucast (buf j))"
    by (simp add: atLeast0LessThan)
  then have "unat (\<Sum>j = 0..<m. ucast (buf j) :: u16) =
      unat (of_nat (\<Sum>j<m. unat (buf j)) :: u16)"
    by simp
  then show ?thesis by (simp only: unat_of_nat) simp
qed

lemma checksum_byte:
  "unat (ucast ((\<Sum>j = 0..<m. ucast ((buf :: nat \<Rightarrow> u8) j) :: u16) AND 0xff) :: u8) =
     (\<Sum>j<m. unat (buf j)) mod 256"
  by (simp only: low_byte sum_ucast) (simp add: mod_mod_cancel)

subsection \<open>send\_data as a whole\<close>

lemma send_data_unfold:
  "send_data c w buf n =
     (OK,
      snd (snd (read_uart
        (fst (send_data_loop c n 0 (usleep w (POST_READ_DELAY_IN_USECS c), buf, 0))) n)),
      fst (snd (send_data_loop c n 0 (usleep w (POST_READ_DELAY_IN_USECS c), buf, 0))))"
  by (simp add: send_data_def split_def Let_def)

lemma send_data_buffer:
  "0 < n \<Longrightarrow> snd (snd (send_data c w buf n)) =
     buf(n - 1 := ucast ((\<Sum>j = 0..<n - 1. ucast (buf j) :: u16) AND 0xff))"
  by (simp add: send_data_unfold send_data_loop_buffer)

lemma send_data_world:
  "rx (fst (snd (send_data c w buf n))) = rx w \<and>
   rpos (fst (snd (send_data c w buf n))) = rpos w + read_count w n \<and>
   wfail (fst (snd (send_data c w buf n))) = wfail w \<and>
   polls (fst (snd (send_data c w buf n))) = polls w \<and>
   pcnt (fst (snd (send_data c w buf n))) = pcnt w \<and>
   console (fst (snd (send_data c w buf n))) = console w \<and>
   wcnt (fst (snd (send_data c w buf n))) = wcnt w + n"
  using send_data_loop_frame [of c n 0 "usleep w (POST_READ_DELAY_IN_USECS c)" buf 0]
  by (simp add: send_data_unfold usleep_def read_uart_def read_count_def)

lemma send_data_tx:
  "0 < n \<Longrightarrow> \<forall>k<n. \<not> wfail w (wcnt w + k) \<Longrightarrow>
   tx (fst (snd (send_data c w buf n))) =
     tx w @ map buf [0..<n - 1] @ [ucast ((\<Sum>j = 0..<n - 1. ucast (buf j) :: u16) AND 0xff)]"
  using send_data_loop_tx [of 0 n "usleep w (POST_READ_DELAY_IN_USECS c)" c buf 0]
  by (simp add: send_data_unfold usleep_def read_uart_def)



section \<open>The claims about send\_data\<close>

text \<open>Claim C1. For a frame of size \<open>n \<ge> 1\<close> none of whose writes fails, the bytes that
  \<^verbatim>\<open>send_data\<close> puts on the line are the first \<open>n - 1\<close> bytes of the buffer followed by one
  more byte, which is also what the buffer holds at index \<open>n - 1\<close> afterwards. Read as a number,
  that last byte is the sum of the \<open>n - 1\<close> bytes before it modulo 256, whatever the builder
  had left at index \<open>n - 1\<close>. The checksum is in the last position of the frame; the first
  \<open>n - 1\<close> positions go out as the builder supplied them.\<close>

theorem send_data_checksum_last:
  assumes "1 \<le> n" and "\<forall>k<n. \<not> wfail w (wcnt w + k)"
  shows "tx (fst (snd (send_data c w buf n))) =
           tx w @ map buf [0..<n - 1] @ [snd (snd (send_data c w buf n)) (n - 1)] \<and>
         unat (snd (snd (send_data c w buf n)) (n - 1)) = (\<Sum>j<n - 1. unat (buf j)) mod 256"
proof -
  from assms(1) have n: "0 < n" by simp
  have b: "snd (snd (send_data c w buf n)) (n - 1) =
      ucast ((\<Sum>j = 0..<n - 1. ucast (buf j) :: u16) AND 0xff)"
    by (simp add: send_data_buffer [OF n])
  show ?thesis
    unfolding b using send_data_tx [OF n assms(2)] by (simp only: checksum_byte)
qed

text \<open>A frame of four bytes whose last byte the builder left at \<open>0x55\<close>: the first three go
  out unchanged and the fourth goes out as \<open>(0x7C + 0x8E + 0xFF) mod 256 = 9\<close>.\<close>

theorem send_data_checksum_last_witness:
  "take 3 (tx (fst (snd (send_data example_h (line (padded []) no_fail silent)
       (padded [0x7C, 0x8E, 0xFF, 0x55]) 4)))) = [0x7C, 0x8E, 0xFF] \<and>
   unat (last (tx (fst (snd (send_data example_h (line (padded []) no_fail silent)
       (padded [0x7C, 0x8E, 0xFF, 0x55]) 4))))) = 9"
proof -
  have u: "[0..<3::nat] = [0, 1, 2]" by code_simp
  have l: "{..<3::nat} = {0, 1, 2}" by auto
  show ?thesis
    using send_data_checksum_last [of 4 "line (padded []) no_fail silent" example_h
        "padded [0x7C, 0x8E, 0xFF, 0x55]"]
    by (simp add: line_def no_fail_def padded_def u l)
qed

text \<open>Claim C10. For every buffer and every size \<open>n \<ge> 1\<close>, the buffer after \<^verbatim>\<open>send_data\<close>
  agrees with the buffer before it at every index but \<open>n - 1\<close>: the bytes at indices 0 to
  \<open>n - 2\<close> (and everything behind the frame) are unchanged.\<close>

theorem send_data_buffer_frame:
  "1 \<le> n \<Longrightarrow> j \<noteq> n - 1 \<Longrightarrow> snd (snd (send_data c w buf n)) j = buf j"
  by (simp add: send_data_buffer)

theorem send_data_buffer_frame_witness:
  "snd (snd (send_data example_h (line (padded []) no_fail silent)
       (padded [0x7C, 0x8E, 0xFF, 0x55]) 4)) 2 = 0xFF"
  using send_data_buffer_frame [of 4 2 example_h "line (padded []) no_fail silent"
      "padded [0x7C, 0x8E, 0xFF, 0x55]"]
  by (simp add: padded_def)



text \<open>Claim C4, as stated, fails: on a line where every write fails, \<^verbatim>\<open>write\<close> returns -1,
  nothing goes out, and \<^verbatim>\<open>send_data\<close> still returns \<^verbatim>\<open>OK\<close>.\<close>

theorem send_data_write_failure_counterexample:
  "fst (write_uart (line (padded []) all_fail silent) 0x7C) = - 1 \<and>
   fst (send_data example_h (line (padded []) all_fail silent)
          (padded [0x7C, 0x8E, 0xFF, 0x55]) 4) = OK \<and>
   tx (fst (snd (send_data example_h (line (padded []) all_fail silent)
          (padded [0x7C, 0x8E, 0xFF, 0x55]) 4))) = []"
  by (simp add: send_data_unfold send_data_loop_step send_data_loop_last send_data_loop_done
      write_uart_def read_uart_def usleep_def line_def all_fail_def)

text \<open>Claim C4, amended. \<^verbatim>\<open>send_data\<close> drops the result of every \<^verbatim>\<open>write\<close> and has one
  \<^verbatim>\<open>return\<close>: it returns \<^verbatim>\<open>OK\<close> for every frame and every outcome of its writes.\<close>

theorem send_data_returns_OK: "fst (send_data c w buf n) = OK"
  by (simp add: send_data_unfold)

section \<open>The claims about recv\_req\_id\<close>

lemma recv_req_id_timeout:
  "\<not> 0 < polls w (pcnt w) \<Longrightarrow> recv_req_id c w i =
     (ERROR, warnx (w\<lparr>pcnt := pcnt w + 1\<rparr>) ''UART timeout on TX/RX port'', i)"
  by (simp add: recv_req_id_def poll_uart_def)

lemma recv_req_id_mismatch:
  "0 < polls w (pcnt w) \<Longrightarrow> rx w (rpos w) \<noteq> BINARY_MODE_REQUEST_ID c \<Longrightarrow>
   recv_req_id c w i = (ERROR, w\<lparr>pcnt := pcnt w + 1, rpos := rpos w + 1\<rparr>, i)"
  by (simp add: recv_req_id_def poll_uart_def read_byte_def)

lemma recv_req_id_valid:
  "0 < polls w (pcnt w) \<Longrightarrow> rx w (rpos w) = BINARY_MODE_REQUEST_ID c \<Longrightarrow>
   recv_req_id c w i = (OK, w\<lparr>pcnt := pcnt w + 1, rpos := rpos w + 2\<rparr>, rx w (rpos w + 1))"
  by (simp add: recv_req_id_def poll_uart_def read_byte_def)

lemma recv_req_id_OK_iff:
  "fst (recv_req_id c w i) = OK \<longleftrightarrow> 0 < polls w (pcnt w) \<and> rx w (rpos w) = BINARY_MODE_REQUEST_ID c"
  by (cases "0 < polls w (pcnt w)"; cases "rx w (rpos w) = BINARY_MODE_REQUEST_ID c")
     (simp_all add: recv_req_id_timeout recv_req_id_mismatch recv_req_id_valid)

text \<open>Claim C5. When \<^verbatim>\<open>poll\<close> reports the line readable within its timeout and the first
  byte of the incoming stream is the binary-request marker, \<^verbatim>\<open>recv_req_id\<close> returns
  \<^verbatim>\<open>OK\<close>, the value it stores through \<^verbatim>\<open>id\<close> is the second byte of the stream, and it
  has consumed exactly two bytes.\<close>

theorem recv_req_id_valid_poll:
  assumes "0 < polls w (pcnt w)" and "rx w (rpos w) = BINARY_MODE_REQUEST_ID c"
  shows "fst (recv_req_id c w i) = OK \<and>
         snd (snd (recv_req_id c w i)) = rx w (rpos w + 1) \<and>
         rpos (fst (snd (recv_req_id c w i))) = rpos w + 2"
  using assms by (simp add: recv_req_id_valid)

theorem recv_req_id_valid_poll_witness:
  "fst (recv_req_id example_h (line (padded [0xA1, 0x8E, 0x33]) no_fail ready) 0) = OK \<and>
   snd (snd (recv_req_id example_h (line (padded [0xA1, 0x8E, 0x33]) no_fail ready) 0)) = 0x8E \<and>
   rpos (fst (snd (recv_req_id example_h (line (padded [0xA1, 0x8E, 0x33]) no_fail ready) 0))) = 2"
  using recv_req_id_valid_poll [of "line (padded [0xA1, 0x8E, 0x33]) no_fail ready" example_h 0]
  by (simp add: line_def ready_def padded_def example_h_def)

text \<open>Claim C3, as stated, fails: a call that reads a mode byte other than the marker and a
  call whose poll times out hand the caller the same return code and the same value behind
  \<^verbatim>\<open>id\<close>.\<close>

theorem recv_req_id_same_ERROR_counterexample:
  "0 < polls (line (padded [0x00, 0x8E]) no_fail ready) (pcnt (line (padded [0x00, 0x8E]) no_fail ready)) \<and>
   rx (line (padded [0x00, 0x8E]) no_fail ready) (rpos (line (padded [0x00, 0x8E]) no_fail ready))
     \<noteq> BINARY_MODE_REQUEST_ID example_h \<and>
   polls (line (padded [0x00, 0x8E]) no_fail silent) (pcnt (line (padded [0x00, 0x8E]) no_fail silent)) = 0 \<and>
   fst (recv_req_id example_h (line (padded [0x00, 0x8E]) no_fail ready) 0x55) =
     fst (recv_req_id example_h (line (padded [0x00, 0x8E]) no_fail silent) 0x55) \<and>
   snd (snd (recv_req_id example_h (line (padded [0x00, 0x8E]) no_fail ready) 0x55)) =
     snd (snd (recv_req_id example_h (line (padded [0x00, 0x8E]) no_fail silent) 0x55))"
  by (simp add: recv_req_id_def poll_uart_def read_byte_def warnx_def line_def ready_def
      silent_def padded_def example_h_def)

text \<open>Claim C3, amended. When \<^verbatim>\<open>recv_req_id\<close> reads a mode byte that is not the marker it
  returns \<^verbatim>\<open>ERROR\<close> and leaves the value behind \<^verbatim>\<open>id\<close> alone, exactly as a call whose
  poll times out does. The two failures differ only in their effects on the world: the mismatch
  has consumed one byte and printed nothing, the timeout has consumed nothing and printed the
  warning.\<close>

theorem recv_req_id_mismatch_ERROR:
  assumes "0 < polls w (pcnt w)" and "rx w (rpos w) \<noteq> BINARY_MODE_REQUEST_ID c"
    and "\<not> 0 < polls w' (pcnt w')"
  shows "recv_req_id c w i = (ERROR, w\<lparr>pcnt := pcnt w + 1, rpos := rpos w + 1\<rparr>, i) \<and>
         recv_req_id c w' i =
           (ERROR, w'\<lparr>pcnt := pcnt w' + 1, console := console w' @ [''UART timeout on TX/RX port'']\<rparr>, i)"
  using assms by (simp add: recv_req_id_timeout recv_req_id_mismatch warnx_def)

theorem recv_req_id_mismatch_ERROR_witness:
  "fst (recv_req_id example_h (line (padded [0x00, 0x8E]) no_fail ready) 0x55) = ERROR \<and>
   fst (recv_req_id example_h (line (padded [0x00, 0x8E]) no_fail silent) 0x55) = ERROR"
  using recv_req_id_mismatch_ERROR [of "line (padded [0x00, 0x8E]) no_fail ready" example_h
      "line (padded [0x00, 0x8E]) no_fail silent" "0x55"]
  by (simp add: line_def ready_def silent_def padded_def example_h_def)

section \<open>The claims about the session loop\<close>

lemma cycle_failed:
  "fst (recv_req_id c w (id_v l)) \<noteq> OK \<Longrightarrow> cycle c be bg (w, l) =
     (warnx (fst (snd (recv_req_id c w (id_v l)))) ''syncing'',
      \<lparr>buffer = buffer l, size_v = size_v l, id_v = snd (snd (recv_req_id c w (id_v l))),
       connected = False\<rparr>)"
  by (simp add: cycle_def split_def Let_def)

lemma cycle_connected:
  "connected (snd (cycle c be bg (w, l))) = (fst (recv_req_id c w (id_v l)) = OK)"
  by (simp add: cycle_def split_def Let_def)

lemma cycle_console:
  "console (fst (cycle c be bg (w, l))) = console w @
     (if fst (recv_req_id c w (id_v l)) = OK then (if connected l then [] else [''OK''])
      else if 0 < polls w (pcnt w) then [''syncing'']
      else [''UART timeout on TX/RX port'', ''syncing''])"
proof (cases "0 < polls w (pcnt w)")
  case False
  then show ?thesis
    by (simp add: cycle_failed recv_req_id_timeout warnx_def)
next
  case p: True
  show ?thesis
  proof (cases "rx w (rpos w) = BINARY_MODE_REQUEST_ID c")
    case False
    with p show ?thesis
      by (simp add: cycle_failed recv_req_id_mismatch warnx_def)
  next
    case True
    with p show ?thesis
      by (simp add: cycle_def recv_req_id_valid split_def Let_def send_data_world warnx_def)
  qed
qed

lemma main_loop_Suc:
  "main_loop c be bg (Suc n) s = cycle c be bg (main_loop c be bg n s)"
  by (induction n arbitrary: s) simp_all

lemma cycle_unsupported:
  assumes "0 < polls w (pcnt w)" and "rx w (rpos w) = BINARY_MODE_REQUEST_ID c"
    and "rx w (rpos w + 1) \<noteq> EAM_SENSOR_ID c" and "rx w (rpos w + 1) \<noteq> GPS_SENSOR_ID c"
  shows "cycle c be bg (w, l) =
           (w\<lparr>pcnt := pcnt w + 1, rpos := rpos w + 2,
              console := console w @ (if connected l then [] else [''OK''])\<rparr>,
            \<lparr>buffer = buffer l, size_v = size_v l, id_v = rx w (rpos w + 1), connected = True\<rparr>)"
  using assms by (simp add: cycle_def recv_req_id_valid warnx_def)

text \<open>The second scenario of the specification, run: a poll that times out prints the two
  notices and disconnects; the next poll, for a sensor this controller does not have, prints
  the reconnection notice.\<close>

lemma timed_out_console:
  "console (fst timed_out) = [''UART timeout on TX/RX port'', ''syncing''] \<and>
   console (fst (cycle example_h (fixed_builder [1, 2, 3]) (fixed_builder [4, 5, 6]) timed_out)) =
     [''UART timeout on TX/RX port'', ''syncing'', ''OK'']"
proof -
  have t: "timed_out =
      (\<lparr>rx = padded [0xA1, 0x01], rpos = 0, tx = [], wfail = no_fail, wcnt = 0,
         polls = padded [0, 1], pcnt = 1, slept = 0,
         console = [''UART timeout on TX/RX port'', ''syncing''], rres = full_reads, rcnt = 0,
         trace = []\<rparr>,
       \<lparr>buffer = padded [], size_v = 0, id_v = 0, connected = False\<rparr>)"
    by (simp add: timed_out_def cycle_failed recv_req_id_timeout warnx_def line_def padded_def
        initial_def)
  show ?thesis
    unfolding t
    by (simp add: cycle_console recv_req_id_valid padded_def example_h_def)
qed

text \<open>Claim C2. After every iteration of the session loop, from any starting state, the flag
  \<open>connected\<close> says whether the call of \<^verbatim>\<open>recv_req_id\<close> in that iteration returned
  \<^verbatim>\<open>OK\<close>. The iteration prints the reconnection notice \<open>OK\<close> exactly when the call succeeded
  and the session was disconnected, and the notice \<open>syncing\<close> exactly when the call failed (after
  the timeout warning of \<^verbatim>\<open>recv_req_id\<close>, if the failure was a timeout). The flag after an
  iteration is the same whatever the builders produce and whichever writes fail.\<close>

theorem session_connectivity:
  "connected (snd (main_loop c be bg (Suc n) s)) =
     (fst (recv_req_id c (fst (main_loop c be bg n s)) (id_v (snd (main_loop c be bg n s)))) = OK) \<and>
   console (fst (main_loop c be bg (Suc n) s)) = console (fst (main_loop c be bg n s)) @
     (if fst (recv_req_id c (fst (main_loop c be bg n s)) (id_v (snd (main_loop c be bg n s)))) = OK
      then (if connected (snd (main_loop c be bg n s)) then [] else [''OK''])
      else if 0 < polls (fst (main_loop c be bg n s)) (pcnt (fst (main_loop c be bg n s)))
        then [''syncing'']
        else [''UART timeout on TX/RX port'', ''syncing'']) \<and>
   connected (snd (cycle c be' bg' (w\<lparr>wfail := f\<rparr>, l))) = connected (snd (cycle c be bg (w, l)))"
proof -
  obtain w0 l0 where s: "main_loop c be bg n s = (w0, l0)" by (cases "main_loop c be bg n s")
  have "fst (recv_req_id c (w\<lparr>wfail := f\<rparr>) (id_v l)) = fst (recv_req_id c w (id_v l))"
    by (simp add: recv_req_id_def poll_uart_def read_byte_def split_def Let_def)
  then show ?thesis
    by (simp add: main_loop_Suc s cycle_connected cycle_console del: main_loop.simps)
qed

text \<open>Claim C6. When the first byte of the incoming stream is delivered (\<^verbatim>\<open>poll\<close> reports
  the line readable) and is not the binary-request marker, \<^verbatim>\<open>recv_req_id\<close> returns
  \<^verbatim>\<open>ERROR\<close> having consumed exactly one byte, and the iteration of the session loop ends
  there: one byte consumed, the notice \<open>syncing\<close> printed, the session disconnected, and nothing
  else changed, so that no builder has run (buffer and size are as before, for any builders) and
  no byte was written.\<close>

theorem mismatch_no_dispatch:
  assumes "0 < polls w (pcnt w)" and "rx w (rpos w) \<noteq> BINARY_MODE_REQUEST_ID c"
  shows "fst (recv_req_id c w i) = ERROR \<and>
         rpos (fst (snd (recv_req_id c w i))) = rpos w + 1 \<and>
         cycle c be bg (w, l) =
           (w\<lparr>pcnt := pcnt w + 1, rpos := rpos w + 1, console := console w @ [''syncing'']\<rparr>,
            \<lparr>buffer = buffer l, size_v = size_v l, id_v = id_v l, connected = False\<rparr>)"
  using assms by (simp add: cycle_failed recv_req_id_mismatch warnx_def)

theorem mismatch_no_dispatch_witness:
  "fst (recv_req_id example_h (line (padded [0x00, 0x8E]) no_fail ready) 0) = ERROR \<and>
   rpos (fst (snd (recv_req_id example_h (line (padded [0x00, 0x8E]) no_fail ready) 0))) = 1 \<and>
   tx (fst (cycle example_h (fixed_builder [1, 2, 3]) (fixed_builder [4, 5, 6])
         (line (padded [0x00, 0x8E]) no_fail ready, initial))) = [] \<and>
   wcnt (fst (cycle example_h (fixed_builder [1, 2, 3]) (fixed_builder [4, 5, 6])
         (line (padded [0x00, 0x8E]) no_fail ready, initial))) = 0 \<and>
   rpos (fst (cycle example_h (fixed_builder [1, 2, 3]) (fixed_builder [4, 5, 6])
         (line (padded [0x00, 0x8E]) no_fail ready, initial))) = 1"
  using mismatch_no_dispatch [of "line (padded [0x00, 0x8E]) no_fail ready" example_h 0
      "fixed_builder [1, 2, 3]" "fixed_builder [4, 5, 6]" initial]
  by (simp add: line_def ready_def padded_def example_h_def)

text \<open>Claim C8, as stated, fails: in the session that has just timed out, a successfully
  received poll for the sensor id 1, which is neither the EAM nor the GPS id, changes the
  connectivity flag from disconnected to connected and prints the reconnection notice.\<close>

theorem unsupported_id_reconnects_counterexample:
  "connected (snd timed_out) = False \<and>
   fst (recv_req_id example_h (fst timed_out) (id_v (snd timed_out))) = OK \<and>
   snd (snd (recv_req_id example_h (fst timed_out) (id_v (snd timed_out)))) = 0x01 \<and>
   (0x01 :: u8) \<noteq> EAM_SENSOR_ID example_h \<and>
   (0x01 :: u8) \<noteq> GPS_SENSOR_ID example_h \<and>
   connected (snd (cycle example_h (fixed_builder [1, 2, 3]) (fixed_builder [4, 5, 6]) timed_out))
     = True \<and>
   console (fst (cycle example_h (fixed_builder [1, 2, 3]) (fixed_builder [4, 5, 6]) timed_out))
     = console (fst timed_out) @ [''OK'']"
proof -
  have t: "timed_out =
      (\<lparr>rx = padded [0xA1, 0x01], rpos = 0, tx = [], wfail = no_fail, wcnt = 0,
         polls = padded [0, 1], pcnt = 1, slept = 0,
         console = [''UART timeout on TX/RX port'', ''syncing''], rres = full_reads, rcnt = 0,
         trace = []\<rparr>,
       \<lparr>buffer = padded [], size_v = 0, id_v = 0, connected = False\<rparr>)"
    by (simp add: timed_out_def cycle_failed recv_req_id_timeout warnx_def line_def padded_def
        initial_def)
  show ?thesis
    unfolding t
    by (simp add: cycle_connected cycle_console recv_req_id_valid padded_def example_h_def)
qed

text \<open>Claim C8, amended. For a successfully received poll whose sensor id is neither
  \<^verbatim>\<open>EAM_SENSOR_ID\<close> nor \<^verbatim>\<open>GPS_SENSOR_ID\<close>, the iteration writes nothing to the line, leaves
  buffer and size alone, consumes the two bytes of the poll and prints no \<open>syncing\<close> notice. The
  session is connected afterwards: the flag is unchanged if it was connected, and switched to
  connected, with the reconnection notice, if it was not.\<close>

theorem unsupported_id_skipped:
  assumes "0 < polls w (pcnt w)" and "rx w (rpos w) = BINARY_MODE_REQUEST_ID c"
    and "rx w (rpos w + 1) \<noteq> EAM_SENSOR_ID c" and "rx w (rpos w + 1) \<noteq> GPS_SENSOR_ID c"
  shows "tx (fst (cycle c be bg (w, l))) = tx w \<and>
         wcnt (fst (cycle c be bg (w, l))) = wcnt w \<and>
         rpos (fst (cycle c be bg (w, l))) = rpos w + 2 \<and>
         buffer (snd (cycle c be bg (w, l))) = buffer l \<and>
         size_v (snd (cycle c be bg (w, l))) = size_v l \<and>
         connected (snd (cycle c be bg (w, l))) = True \<and>
         console (fst (cycle c be bg (w, l))) = console w @ (if connected l then [] else [''OK''])"
  by (simp add: cycle_unsupported [OF assms])

theorem unsupported_id_skipped_witness:
  "tx (fst (cycle example_h (fixed_builder [1, 2, 3]) (fixed_builder [4, 5, 6])
         (line (padded [0xA1, 0x01]) no_fail ready, initial))) = [] \<and>
   connected (snd (cycle example_h (fixed_builder [1, 2, 3]) (fixed_builder [4, 5, 6])
         (line (padded [0xA1, 0x01]) no_fail ready, initial))) = True \<and>
   console (fst (cycle example_h (fixed_builder [1, 2, 3]) (fixed_builder [4, 5, 6])
         (line (padded [0xA1, 0x01]) no_fail ready, initial))) = []"
  using unsupported_id_skipped [of "line (padded [0xA1, 0x01]) no_fail ready" example_h
      "fixed_builder [1, 2, 3]" "fixed_builder [4, 5, 6]" initial]
  by (simp add: line_def ready_def padded_def example_h_def initial_def)

section \<open>The claim about recv\_data\<close>



text \<open>With a stop byte in the stream, and room left in the \<^verbatim>\<open>int\<close>, the loop returns one
  byte after it.\<close>

lemma recv_data_loop_returns:
  "0 \<le> i \<Longrightarrow> i + int k + 1 < INT_MAX \<Longrightarrow>
   \<forall>j<k. rx w (rpos w + j) \<noteq> STOP_BYTE c \<Longrightarrow> rx w (rpos w + k) = STOP_BYTE c \<Longrightarrow>
   \<exists>buf' id'. recv_data_loop c w buf i0 i False =
     Returned (w\<lparr>rpos := rpos w + k + 2\<rparr>, buf', nat i + k + 2, id')"
proof (induction k arbitrary: w buf i)
  case 0
  then show ?case
    by (simp add: recv_data_loop.simps [of c w] recv_data_loop.simps [of _ _ _ _ _ True]
        read_byte_def nat_add_distrib)
next
  case (Suc k)
  let ?w = "w\<lparr>rpos := rpos w + 1\<rparr>"
  have ns: "rx w (rpos w) \<noteq> STOP_BYTE c" using Suc.prems(3) [rule_format, of 0] by simp
  have a: "\<forall>j<k. rx ?w (rpos ?w + j) \<noteq> STOP_BYTE c"
  proof (intro allI impI)
    fix j assume "j < k"
    then show "rx ?w (rpos ?w + j) \<noteq> STOP_BYTE c"
      using Suc.prems(3) [rule_format, of "Suc j"] by simp
  qed
  have b: "rx ?w (rpos ?w + k) = STOP_BYTE c" using Suc.prems(4) by simp
  have i1: "0 \<le> i + 1" "i + 1 + int k + 1 < INT_MAX" using Suc.prems(1,2) by simp_all
  from Suc.IH [OF i1 a b, of "buf(nat i := rx w (rpos w))"]
  obtain buf' id' where
    "recv_data_loop c ?w (buf(nat i := rx w (rpos w))) i0 (i + 1) False =
       Returned (?w\<lparr>rpos := rpos ?w + k + 2\<rparr>, buf', nat (i + 1) + k + 2, id')" by blast
  with ns Suc.prems(1,2) show ?case
    by (simp add: recv_data_loop.simps [of c w] read_byte_def nat_add_distrib)
qed

text \<open>Without a readable byte before the timeout, \<^verbatim>\<open>recv_data\<close> returns \<^verbatim>\<open>ERROR\<close> and
  reads nothing.\<close>

lemma recv_data_timeout:
  "\<not> 0 < polls w (pcnt w) \<Longrightarrow> recv_data c w buf sz i0 =
     Returned (ERROR, w\<lparr>pcnt := pcnt w + 1, slept := slept w + 5000\<rparr>, buf, sz, i0)"
  by (simp add: recv_data_def poll_uart_def usleep_def)




end
